theory Spec2Isabelle
  imports Main "HOL-Library.Sublist"
begin

section \<open>The values \<^verbatim>\<open>main()\<close> of telegram\_agent.py works on\<close>

text \<open>
  A raised Python exception, as far as \<^verbatim>\<open>main\<close> can tell exceptions apart: whether it
  is an instance of \<^verbatim>\<open>Exception\<close> (what \<^verbatim>\<open>except Exception\<close> on lines 47 and 82
  catches; \<^verbatim>\<open>KeyboardInterrupt\<close> and \<^verbatim>\<open>SystemExit\<close> are not, and only the bare
  \<^verbatim>\<open>except:\<close> of line 89 catches those), and what \<^verbatim>\<open>str(e)\<close> does when lines
  48, 83 and 84 format the exception: \<open>Exn\<close> is an exception with a text,
  \<open>Unprintable\<close> one whose \<^verbatim>\<open>__str__\<close> raises an exception of its own (or returns
  no string, a \<^verbatim>\<open>TypeError\<close>).
  A \<open>char\<close> stands for one code point of a Python \<^verbatim>\<open>str\<close>.
\<close>

datatype exn =
    Exn (is_Exception: bool) (exn_str: string)
  | Unprintable (is_Exception: bool) (str_raises: exn)

text \<open>\<^verbatim>\<open>str(e)\<close>: the exception it raises, or the text.\<close>

fun str_of :: "exn \<Rightarrow> exn + string" where
  "str_of (Exn b m) = Inr m"
| "str_of (Unprintable b e') = Inl e'"

definition printable :: "exn \<Rightarrow> bool" where
  "printable e = (case str_of e of Inl e' \<Rightarrow> False | Inr m \<Rightarrow> True)"

text \<open>A type annotation: \<^verbatim>\<open>str\<close>, or any other annotation, by its name.\<close>

datatype ty = TStr | TOther string

text \<open>
  \<^verbatim>\<open>param.default\<close> of an \<^verbatim>\<open>inspect.Parameter\<close>: no default at all
  (\<^verbatim>\<open>Parameter.empty\<close>), the default \<^verbatim>\<open>None\<close>, or any other default value.
\<close>

datatype default_val = NoDefault | DNone | DOther string

record param =
  pname :: string
  pdefault :: default_val

text \<open>
  A callable of the tool registry, by what lines 36 to 45 read and write of it:
  the outcome of \<^verbatim>\<open>inspect.signature(f)\<close> (it raises, or gives the ordered parameters),
  the dict \<^verbatim>\<open>f.__annotations__\<close> in insertion order (\<open>None\<close> when \<^verbatim>\<open>f\<close> has no such
  attribute, as a builtin), and what the assignment \<^verbatim>\<open>f.__annotations__ = hints\<close>
  does (\<open>None\<close>: it succeeds; \<open>Some e\<close>: it raises \<open>e\<close>, as on a bound method or a
  builtin).
\<close>

record fn_obj =
  signature :: "exn + param list"
  annotations :: "(string \<times> ty) list option"
  set_annotations :: "exn option"

type_synonym addr = nat

text \<open>The registry owns the callables; tools and \<^verbatim>\<open>tools_functions\<close> hold references.\<close>

type_synonym store = "addr \<Rightarrow> fn_obj"

record tool =
  tool_name :: string
  tool_fn :: addr

record env =
  api_key :: "string option"
  bot_token :: "string option"
  chat_id :: "string option"
  message :: "string option"

datatype json = JNull | JStr string

datatype level = ERROR | WARNING | INFO | DEBUG

text \<open>
  What an invocation does to the outside, in order: the calls to the logger (whatever
  the configured level lets through), the construction of the client, the listing of the
  tools, the completion call with its model, contents and tools, and the posts with
  their URL and JSON payload. An event stands for the attempt, also when the call raises.
\<close>

datatype event =
    Log level string
  | Client "string option"
  | ListTools
  | GenerateContent string "string option" "addr list"
  | Post string "(string \<times> json) list"

text \<open>
  What the collaborators answer during one invocation: \<^verbatim>\<open>genai.Client(...)\<close>,
  \<^verbatim>\<open>list_tools()\<close>, \<^verbatim>\<open>generate_content(...)\<close> (it raises, or the response's
  \<^verbatim>\<open>text\<close> is \<^verbatim>\<open>None\<close> or a string), the \<^verbatim>\<open>requests.post\<close> of line 78,
  \<^verbatim>\<open>res.raise_for_status()\<close> and the \<^verbatim>\<open>requests.post\<close> of line 87.
\<close>

record world =
  client_result :: "exn option"
  list_tools_result :: "exn + tool list"
  generate_content_result :: "exn + string option"
  primary_post_result :: "exn option"
  raise_for_status_result :: "exn option"
  notify_post_result :: "exn option"

section \<open>Python helpers\<close>

text \<open>Truth value of an environment variable or a response text: \<^verbatim>\<open>None\<close> and \<^verbatim>\<open>''\<close> are falsy.\<close>

definition truthy :: "string option \<Rightarrow> bool" where
  "truthy v = (case v of None \<Rightarrow> False | Some t \<Rightarrow> t \<noteq> [])"

definition py_all :: "string option list \<Rightarrow> bool" where
  "py_all vs = list_all truthy vs"

text \<open>How an f-string renders a value that may be \<^verbatim>\<open>None\<close>.\<close>

definition py_str :: "string option \<Rightarrow> string" where
  "py_str v = (case v of None \<Rightarrow> ''None'' | Some t \<Rightarrow> t)"

definition to_json :: "string option \<Rightarrow> json" where
  "to_json v = (case v of None \<Rightarrow> JNull | Some t \<Rightarrow> JStr t)"

fun str_nat :: "nat \<Rightarrow> string" where
  "str_nat n =
     (if n < 10 then [char_of (48 + n)]
      else str_nat (n div 10) @ [char_of (48 + n mod 10)])"

definition telegram_url :: "string option \<Rightarrow> string" where
  "telegram_url tok = ''https://api.telegram.org/bot'' @ py_str tok @ ''/sendMessage''"

definition MISSING_ENV :: string where
  "MISSING_ENV = ''Missing environment variables: GOOGLE_API_KEY, TELEGRAM_BOT_TOKEN, TELEGRAM_CHAT_ID, TELEGRAM_MESSAGE''"

definition FALLBACK_TEXT :: string where
  "FALLBACK_TEXT = ''I couldn't process that request properly. Please try again.''"

definition ERROR_PREFIX :: string where
  "ERROR_PREFIX = ''Sorry, I encountered an error: ''"

section \<open>Lines 30 to 50: patching the type hints of the tools\<close>

text \<open>
  Lines 38 to 43, the loop over \<^verbatim>\<open>sig.parameters.items()\<close>. A key is added to the
  dict only when it is not in it, so it goes to the end.
\<close>

fun patch_loop :: "param list \<Rightarrow> (string \<times> ty) list \<Rightarrow> bool \<Rightarrow> (string \<times> ty) list \<times> bool" where
  "patch_loop [] hints changed = (hints, changed)"
| "patch_loop (p # ps) hints changed =
     (if map_of hints (pname p) = None \<and> pdefault p = DNone
      then patch_loop ps (hints @ [(pname p, TStr)]) True
      else patch_loop ps hints changed)"

text \<open>
  Lines 47 and 48: \<^verbatim>\<open>except Exception as patch_err\<close>; anything else goes on up. The
  f-string of line 48 formats the exception inside the handler: what \<^verbatim>\<open>str\<close> raises
  there leaves the loop, before the warning is logged.
\<close>

definition on_patch_err :: "tool \<Rightarrow> exn \<Rightarrow> store \<Rightarrow> store \<times> event list \<times> exn option" where
  "on_patch_err t e s =
     (if is_Exception e
      then (case str_of e of
              Inl e' \<Rightarrow> (s, [], Some e')
            | Inr msg \<Rightarrow>
                (s, [Log WARNING (''Could not patch tool '' @ tool_name t @ '': '' @ msg)], None))
      else (s, [], Some e))"

text \<open>
  Lines 32 to 48 for one tool. When \<^verbatim>\<open>f\<close> has an \<^verbatim>\<open>__annotations__\<close> dict,
  \<^verbatim>\<open>hints\<close> is that very dict and line 42 writes into the callable at once, before
  line 45 can raise; when it has none, \<^verbatim>\<open>hints\<close> is the fresh \<^verbatim>\<open>{}\<close> of
  \<^verbatim>\<open>getattr\<close> and reaches the callable only if line 45 succeeds.

  The store keeps every callable's dict at the callable's own address. A dict object
  that two callables share (\<^verbatim>\<open>functools.wraps\<close> hands the wrapped function's dict to
  the wrapper, a bound method reads the dict of its function) is not followed to the
  other callable: the store tells what a run does to the callable a tool refers to, and
  nothing in this theory is stated about what it does to another callable through a
  shared dict.
\<close>

definition patch_tool :: "tool \<Rightarrow> store \<Rightarrow> store \<times> event list \<times> exn option" where
  "patch_tool t s =
     (let f = tool_fn t in
      case signature (s f) of
        Inl e \<Rightarrow> on_patch_err t e s
      | Inr params \<Rightarrow>
          (case annotations (s f) of
             Some own \<Rightarrow>
               (case patch_loop params own False of
                  (hints, changed) \<Rightarrow>
                    if changed then
                      (let s1 = s(f := (s f)\<lparr>annotations := Some hints\<rparr>) in
                       case set_annotations (s f) of
                         Some e \<Rightarrow> on_patch_err t e s1
                       | None \<Rightarrow> (s1, [Log DEBUG (''Patched type hints for tool: '' @ tool_name t)], None))
                    else (s, [], None))
           | None \<Rightarrow>
               (case patch_loop params [] False of
                  (hints, changed) \<Rightarrow>
                    if changed then
                      (case set_annotations (s f) of
                         Some e \<Rightarrow> on_patch_err t e s
                       | None \<Rightarrow>
                           (s(f := (s f)\<lparr>annotations := Some hints\<rparr>),
                            [Log DEBUG (''Patched type hints for tool: '' @ tool_name t)], None))
                    else (s, [], None))))"

text \<open>
  Lines 30 to 50, the loop over the tools: the callables' store after it, the log lines
  written, and either the exception that left the loop or \<^verbatim>\<open>tools_functions\<close>.
\<close>

fun sanitize :: "tool list \<Rightarrow> store \<Rightarrow> addr list \<Rightarrow> store \<times> event list \<times> (exn + addr list)" where
  "sanitize [] s tools_functions = (s, [], Inr tools_functions)"
| "sanitize (t # ts) s tools_functions =
     (case patch_tool t s of
        (s1, log1, Some e) \<Rightarrow> (s1, log1, Inl e)
      | (s1, log1, None) \<Rightarrow>
          (case sanitize ts s1 (tools_functions @ [tool_fn t]) of
             (s2, log2, r) \<Rightarrow> (s2, log1 @ log2, r)))"

section \<open>Lines 14 to 90: the orchestrator\<close>

definition final_text_of :: "string option \<Rightarrow> string" where
  "final_text_of text =
     (case text of
        None \<Rightarrow> FALLBACK_TEXT
      | Some t \<Rightarrow> if t = [] then FALLBACK_TEXT else t)"

text \<open>Lines 72 to 80: the primary send. The trace keeps the attempt, whatever comes of it.\<close>

definition primary_send :: "env \<Rightarrow> world \<Rightarrow> string \<Rightarrow> event list \<times> exn option" where
  "primary_send env w final_text =
     (let post = Post (telegram_url (bot_token env))
                   [(''chat_id'', to_json (chat_id env)),
                    (''text'', JStr final_text),
                    (''parse_mode'', JStr ''Markdown'')] in
      case primary_post_result w of
        Some e \<Rightarrow> ([post], Some e)
      | None \<Rightarrow>
          (case raise_for_status_result w of
             Some e \<Rightarrow> ([post], Some e)
           | None \<Rightarrow> ([post, Log INFO ''Message sent to Telegram successfully''], None)))"

text \<open>Lines 27 to 80, the body of the outer \<^verbatim>\<open>try\<close>: the trace and the exception that left it.\<close>

definition processing :: "env \<Rightarrow> world \<Rightarrow> store \<Rightarrow> event list \<times> exn option" where
  "processing env w s =
     (case client_result w of
        Some e \<Rightarrow> ([Client (api_key env)], Some e)
      | None \<Rightarrow>
          (case list_tools_result w of
             Inl e \<Rightarrow> ([Client (api_key env), ListTools], Some e)
           | Inr tools \<Rightarrow>
               (case sanitize tools s [] of
                  (s1, log1, Inl e) \<Rightarrow> ([Client (api_key env), ListTools] @ log1, Some e)
                | (s1, log1, Inr tools_functions) \<Rightarrow>
                    (let tr1 = [Client (api_key env), ListTools] @ log1 @
                           [Log INFO (''Loaded and sanitized '' @ str_nat (length tools_functions) @ '' tools from main.py''),
                            GenerateContent ''gemini-2.5-flash'' (message env) tools_functions] in
                     case generate_content_result w of
                       Inl e \<Rightarrow> (tr1, Some e)
                     | Inr text \<Rightarrow>
                         (let final_text = final_text_of text;
                              tr2 = tr1 @ [Log INFO (''AI Response truncated: '' @ take 100 final_text @ ''...'')] in
                          case primary_send env w final_text of
                            (tr3, r) \<Rightarrow> (tr2 @ tr3, r))))))"

text \<open>
  Lines 83 to 90, the handler of \<^verbatim>\<open>except Exception as e\<close>. Lines 83 and 84 format
  \<^verbatim>\<open>e\<close> in the handler, outside the inner \<^verbatim>\<open>try\<close>: what \<^verbatim>\<open>str(e)\<close> raises
  there goes to the caller, before anything is logged or posted. The post of line 87 is
  inside \<^verbatim>\<open>try: ... except: pass\<close>, and its response is not looked at.
\<close>

definition recover :: "env \<Rightarrow> world \<Rightarrow> exn \<Rightarrow> event list \<times> exn option" where
  "recover env w e =
     (case str_of e of
        Inl e' \<Rightarrow> ([], Some e')
      | Inr msg \<Rightarrow>
          (let error_msg = ERROR_PREFIX @ msg;
               tr = [Log ERROR (''Error in agent processing: '' @ msg),
                     Post (telegram_url (bot_token env))
                       [(''chat_id'', to_json (chat_id env)), (''text'', JStr (take 4000 error_msg))]] in
           case notify_post_result w of
             Some e'' \<Rightarrow> (tr, None)
           | None \<Rightarrow> (tr, None)))"

text \<open>
  \<^verbatim>\<open>main()\<close>: the trace of the invocation and the exception it raises to its caller,
  if any. The store is the registry's callables as the invocation finds them.
\<close>

definition main :: "env \<Rightarrow> world \<Rightarrow> store \<Rightarrow> event list \<times> exn option" where
  "main env w s =
     (if \<not> py_all [api_key env, bot_token env, chat_id env, message env]
      then ([Log ERROR MISSING_ENV], None)
      else
        (let tr0 = [Log INFO (''Processing message for chat '' @ py_str (chat_id env) @ '': '' @ py_str (message env))] in
         case processing env w s of
           (tr, None) \<Rightarrow> (tr0 @ tr, None)
         | (tr, Some e) \<Rightarrow>
             if is_Exception e
             then (case recover env w e of (tr', r) \<Rightarrow> (tr0 @ tr @ tr', r))
             else (tr0 @ tr, Some e)))"

section \<open>Reading a trace\<close>

text \<open>
  The primary send is the post with \<^verbatim>\<open>parse_mode\<close> Markdown (line 78), the notification
  send the post without a \<^verbatim>\<open>parse_mode\<close> (line 87). The network calls are the
  completion call and the posts.
\<close>

fun is_primary_send :: "event \<Rightarrow> bool" where
  "is_primary_send (Post url payload) = (map_of payload ''parse_mode'' = Some (JStr ''Markdown''))"
| "is_primary_send _ = False"

fun is_notification_send :: "event \<Rightarrow> bool" where
  "is_notification_send (Post url payload) = (map_of payload ''parse_mode'' = None)"
| "is_notification_send _ = False"

fun is_network_call :: "event \<Rightarrow> bool" where
  "is_network_call (GenerateContent model contents tools) = True"
| "is_network_call (Post url payload) = True"
| "is_network_call _ = False"

fun is_post :: "event \<Rightarrow> bool" where
  "is_post (Post url payload) = True"
| "is_post _ = False"

definition posts :: "event list \<Rightarrow> nat" where
  "posts tr = length (filter is_post tr)"

definition primary_sends :: "event list \<Rightarrow> nat" where
  "primary_sends tr = length (filter is_primary_send tr)"

definition notification_sends :: "event list \<Rightarrow> nat" where
  "notification_sends tr = length (filter is_notification_send tr)"

text \<open>Line 80, the log line that only a primary send without an exception reaches.\<close>

definition SENT_OK :: event where
  "SENT_OK = Log INFO ''Message sent to Telegram successfully''"

definition absent_or_empty :: "string option \<Rightarrow> bool" where
  "absent_or_empty v = (v = None \<or> v = Some [])"

section \<open>Reading a callable and a sanitizer run\<close>

text \<open>The declared type of the parameter called \<open>n\<close>, as \<^verbatim>\<open>__annotations__\<close> gives it.\<close>

definition declared_type :: "fn_obj \<Rightarrow> string \<Rightarrow> ty option" where
  "declared_type f n = (case annotations f of None \<Rightarrow> None | Some hints \<Rightarrow> map_of hints n)"

text \<open>Some parameter of the signature is called \<open>n\<close> and has the default \<^verbatim>\<open>None\<close>.\<close>

definition none_default :: "param list \<Rightarrow> string \<Rightarrow> bool" where
  "none_default ps n = list_ex (\<lambda>p. pname p = n \<and> pdefault p = DNone) ps"

text \<open>The dict has a key for every parameter whose default is \<^verbatim>\<open>None\<close>.\<close>

definition closed_hints :: "param list \<Rightarrow> (string \<times> ty) list \<Rightarrow> bool" where
  "closed_hints ps hints = list_all (\<lambda>p. pdefault p \<noteq> DNone \<or> map_of hints (pname p) \<noteq> None) ps"

text \<open>
  A callable on which lines 36 to 48 change nothing and let nothing out: its inspection
  raises an \<^verbatim>\<open>Exception\<close> that line 48 can format, or its dict is closed, or it has
  no dict and the assignment of one raises such an \<^verbatim>\<open>Exception\<close>.
\<close>

definition quiet :: "fn_obj \<Rightarrow> bool" where
  "quiet f =
     (case signature f of
        Inl e \<Rightarrow> is_Exception e \<and> printable e
      | Inr ps \<Rightarrow>
          (case annotations f of
             Some hints \<Rightarrow> closed_hints ps hints
           | None \<Rightarrow>
               closed_hints ps [] \<or>
               (case set_annotations f of None \<Rightarrow> False | Some e \<Rightarrow> is_Exception e \<and> printable e)))"

text \<open>
  Whatever inspecting or rewriting the callable raises is an \<^verbatim>\<open>Exception\<close> with a
  text, so that line 47 catches it and line 48 can format it.
\<close>

definition raises_only_Exception :: "fn_obj \<Rightarrow> bool" where
  "raises_only_Exception f =
     ((case signature f of Inl e \<Rightarrow> is_Exception e \<and> printable e | Inr ps \<Rightarrow> True) \<and>
      (case set_annotations f of Some e \<Rightarrow> is_Exception e \<and> printable e | None \<Rightarrow> True))"

text \<open>
  The sanitizer as a function of the descriptors (the tools and the callables they refer
  to): the callables after the run and what the loop hands on; the log is left out.
  \<open>sanitized_twice\<close> runs it again on what the first run left, when that returned.
\<close>

definition sanitized :: "tool list \<Rightarrow> store \<Rightarrow> store \<times> (exn + addr list)" where
  "sanitized tools s = (case sanitize tools s [] of (s1, log1, r) \<Rightarrow> (s1, r))"

definition sanitized_twice :: "tool list \<Rightarrow> store \<Rightarrow> store \<times> (exn + addr list)" where
  "sanitized_twice tools s =
     (case sanitized tools s of
        (s1, Inl e) \<Rightarrow> (s1, Inl e)
      | (s1, Inr tools_functions) \<Rightarrow> sanitized tools s1)"

section \<open>A small registry and a sample invocation\<close>

text \<open>
  Five callables as the registry can hold them: a plain function
  \<^verbatim>\<open>def get_weather(city=None)\<close>; a bound method \<^verbatim>\<open>obj.lookup\<close> of
  \<^verbatim>\<open>def lookup(self, key=None)\<close>, whose \<^verbatim>\<open>__annotations__\<close> reads the function's
  dict and cannot be assigned; the builtin \<^verbatim>\<open>sorted(iterable, /, *, key=None, reverse=False)\<close>,
  which has no \<^verbatim>\<open>__annotations__\<close> and accepts none; a callable whose
  signature cannot be inspected; and a plain function
  \<^verbatim>\<open>def forecast(city, days=None)\<close>.
\<close>

definition get_weather :: fn_obj where
  "get_weather =
     \<lparr>signature = Inr [\<lparr>pname = ''city'', pdefault = DNone\<rparr>],
      annotations = Some [], set_annotations = None\<rparr>"

definition bound_lookup :: fn_obj where
  "bound_lookup =
     \<lparr>signature = Inr [\<lparr>pname = ''key'', pdefault = DNone\<rparr>],
      annotations = Some [],
      set_annotations = Some (Exn True ''method object has no attribute __annotations__'')\<rparr>"

definition builtin_sorted :: fn_obj where
  "builtin_sorted =
     \<lparr>signature = Inr [\<lparr>pname = ''iterable'', pdefault = NoDefault\<rparr>,
                        \<lparr>pname = ''key'', pdefault = DNone\<rparr>,
                        \<lparr>pname = ''reverse'', pdefault = DOther ''False''\<rparr>],
      annotations = None,
      set_annotations = Some (Exn True ''builtin_function_or_method object has no attribute __annotations__'')\<rparr>"

definition opaque_callable :: fn_obj where
  "opaque_callable =
     \<lparr>signature = Inl (Exn True ''no signature found''),
      annotations = None, set_annotations = None\<rparr>"

definition forecast :: fn_obj where
  "forecast =
     \<lparr>signature = Inr [\<lparr>pname = ''city'', pdefault = NoDefault\<rparr>,
                        \<lparr>pname = ''days'', pdefault = DNone\<rparr>],
      annotations = Some [], set_annotations = None\<rparr>"

definition registry :: store where
  "registry a =
     (if a = 0 then get_weather else if a = 1 then bound_lookup
      else if a = 2 then builtin_sorted else if a = 3 then opaque_callable
      else forecast)"

definition weather_tool :: tool where
  "weather_tool = \<lparr>tool_name = ''get_weather'', tool_fn = 0\<rparr>"

definition lookup_tool :: tool where
  "lookup_tool = \<lparr>tool_name = ''lookup'', tool_fn = 1\<rparr>"

definition sorted_tool :: tool where
  "sorted_tool = \<lparr>tool_name = ''sorted'', tool_fn = 2\<rparr>"

definition opaque_tool :: tool where
  "opaque_tool = \<lparr>tool_name = ''opaque'', tool_fn = 3\<rparr>"

definition forecast_tool :: tool where
  "forecast_tool = \<lparr>tool_name = ''forecast'', tool_fn = 4\<rparr>"

definition sample_env :: env where
  "sample_env =
     \<lparr>api_key = Some ''key'', bot_token = Some ''token'',
      chat_id = Some ''42'', message = Some ''What's the weather tomorrow?''\<rparr>"

definition sunny_world :: world where
  "sunny_world =
     \<lparr>client_result = None,
      list_tools_result = Inr [weather_tool],
      generate_content_result = Inr (Some ''It will be sunny.''),
      primary_post_result = None,
      raise_for_status_result = None,
      notify_post_result = None\<rparr>"

text \<open>
  Other answers of the collaborators: the messaging provider answers the primary post
  with status 400, so that \<^verbatim>\<open>raise_for_status\<close> raises an \<^verbatim>\<open>HTTPError\<close>; the
  process gets SIGINT during the completion call (a \<^verbatim>\<open>KeyboardInterrupt\<close>, whose
  text is empty); the completion call fails in transport and the notification post is
  interrupted in its turn; the only tool cannot be inspected and the completion call
  fails with a message of 5000 characters; the completion call raises an exception
  whose \<^verbatim>\<open>__str__\<close> returns no string; the completion has an empty text.
\<close>

definition http_error_world :: world where
  "http_error_world =
     sunny_world\<lparr>raise_for_status_result := Some (Exn True ''400 Client Error: Bad Request'')\<rparr>"

definition interrupted_world :: world where
  "interrupted_world = sunny_world\<lparr>generate_content_result := Inl (Exn False [])\<rparr>"

definition offline_world :: world where
  "offline_world =
     sunny_world\<lparr>generate_content_result := Inl (Exn True ''Connection reset by peer''),
                 notify_post_result := Some (Exn False [])\<rparr>"

definition noisy_world :: world where
  "noisy_world =
     sunny_world\<lparr>list_tools_result := Inr [opaque_tool],
                 generate_content_result := Inl (Exn True (replicate 5000 CHR ''x''))\<rparr>"

definition unprintable_world :: world where
  "unprintable_world =
     sunny_world\<lparr>generate_content_result :=
       Inl (Unprintable True (Exn True ''__str__ returned non-string (type int)''))\<rparr>"

definition empty_text_world :: world where
  "empty_text_world = sunny_world\<lparr>generate_content_result := Inr (Some [])\<rparr>"

section \<open>Validation\<close>

lemma truthy_iff: "truthy v = (\<not> absent_or_empty v)"
  by (cases v) (simp_all add: truthy_def absent_or_empty_def)

text \<open>
  C3. Whenever at least one of the four required values (GOOGLE\_API\_KEY,
  TELEGRAM\_BOT\_TOKEN, TELEGRAM\_CHAT\_ID, TELEGRAM\_MESSAGE) is absent or empty, the
  invocation is aborted: it writes the one error log line about the omission and nothing
  else, so it makes no network call (and no other call to a collaborator), and it
  returns to its caller without raising.
\<close>

theorem missing_input_aborts:
  assumes "absent_or_empty (api_key env) \<or> absent_or_empty (bot_token env) \<or>
           absent_or_empty (chat_id env) \<or> absent_or_empty (message env)"
  shows "main env w s = ([Log ERROR MISSING_ENV], None) \<and>
         filter is_network_call (fst (main env w s)) = []"
  using assms by (auto simp: main_def py_all_def truthy_iff)

theorem missing_input_aborts_witness:
  "absent_or_empty (bot_token (sample_env\<lparr>bot_token := None\<rparr>)) \<and>
   main (sample_env\<lparr>bot_token := None\<rparr>) sunny_world registry = ([Log ERROR MISSING_ENV], None) \<and>
   filter is_network_call (fst (main (sample_env\<lparr>bot_token := None\<rparr>) sunny_world registry)) = []"
  using missing_input_aborts [of "sample_env\<lparr>bot_token := None\<rparr>" sunny_world registry]
  by (simp add: absent_or_empty_def)

section \<open>The loop over the parameters\<close>

declare str_nat.simps [simp del]

lemma patch_loop_map_of:
  "patch_loop ps h c = (h', c') \<Longrightarrow>
   map_of h' n = (if map_of h n = None \<and> none_default ps n then Some TStr else map_of h n)"
  by (induction ps arbitrary: h c)
     (auto simp: none_default_def map_add_def split: if_splits option.splits)

lemma patch_loop_True: "patch_loop ps h True = (h', c') \<Longrightarrow> c'"
  by (induction ps arbitrary: h) (auto split: if_splits)

lemma patch_loop_closed_id: "closed_hints ps h \<Longrightarrow> patch_loop ps h c = (h, c)"
  by (induction ps arbitrary: h c) (auto simp: closed_hints_def)

lemma patch_loop_changed:
  "patch_loop ps h False = (h', c') \<Longrightarrow> c' = (\<not> closed_hints ps h)"
  by (induction ps arbitrary: h) (auto simp: closed_hints_def dest: patch_loop_True split: if_splits)

lemma patch_loop_closes:
  assumes "patch_loop ps h c = (h', c')"
  shows "closed_hints ps h'"
proof -
  have "map_of h' (pname p) \<noteq> None" if "p \<in> set ps" "pdefault p = DNone" for p
  proof -
    have "none_default ps (pname p)"
      using that by (auto simp: none_default_def list_ex_iff)
    then show ?thesis
      using patch_loop_map_of [OF assms, of "pname p"] by (auto split: if_splits)
  qed
  then show ?thesis
    by (auto simp: closed_hints_def list_all_iff)
qed

section \<open>One tool\<close>

lemma patch_tool_frame:
  "patch_tool t s = (s', log1, r) \<Longrightarrow> a \<noteq> tool_fn t \<Longrightarrow> s' a = s a"
  by (auto simp: patch_tool_def on_patch_err_def Let_def
           split: sum.splits option.splits prod.splits if_splits)

lemma patch_tool_fields:
  "patch_tool t s = (s', log1, r) \<Longrightarrow>
   signature (s' a) = signature (s a) \<and> set_annotations (s' a) = set_annotations (s a)"
  by (auto simp: patch_tool_def on_patch_err_def Let_def
           split: sum.splits option.splits prod.splits if_splits)

lemma patch_tool_log:
  "patch_tool t s = (s', log1, r) \<Longrightarrow> ev \<in> set log1 \<Longrightarrow> \<exists>m. ev = Log WARNING m \<or> ev = Log DEBUG m"
  by (auto simp: patch_tool_def on_patch_err_def Let_def
           split: sum.splits option.splits prod.splits if_splits)

lemma patch_tool_declared:
  assumes "patch_tool t s = (s', log1, r)"
  shows "declared_type (s' a) n = declared_type (s a) n \<or>
         (declared_type (s a) n = None \<and> declared_type (s' a) n = Some TStr \<and> a = tool_fn t \<and>
          (\<exists>ps. signature (s a) = Inr ps \<and> none_default ps n))"
  using assms
  by (auto simp: patch_tool_def on_patch_err_def Let_def declared_type_def
           dest!: patch_loop_map_of [where n = n]
           split: sum.splits option.splits prod.splits if_splits)


lemma quiet_patch_tool:
  "quiet (s (tool_fn t)) \<Longrightarrow> \<exists>log1. patch_tool t s = (s, log1, None)"
  by (auto simp: quiet_def printable_def patch_tool_def on_patch_err_def Let_def patch_loop_closed_id
           split: sum.splits option.splits prod.splits if_splits)

lemma patch_tool_quiet:
  assumes "patch_tool t s = (s', log1, None)"
  shows "quiet (s' (tool_fn t))"
proof (cases "signature (s (tool_fn t))")
  case (Inl e)
  then show ?thesis using assms
    by (auto simp: quiet_def printable_def patch_tool_def on_patch_err_def Let_def
             split: if_splits sum.splits)
next
  case (Inr ps)
  show ?thesis
  proof (cases "annotations (s (tool_fn t))")
    case None
    obtain h c where pl: "patch_loop ps [] False = (h, c)" by (cases "patch_loop ps [] False")
    from patch_loop_closes [OF pl] patch_loop_changed [OF pl]
    show ?thesis using assms Inr None pl
      by (auto simp: quiet_def printable_def patch_tool_def on_patch_err_def Let_def
               split: if_splits option.splits sum.splits)
  next
    case (Some own)
    obtain h c where pl: "patch_loop ps own False = (h, c)" by (cases "patch_loop ps own False")
    from patch_loop_closes [OF pl] patch_loop_changed [OF pl]
    show ?thesis using assms Inr Some pl
      by (auto simp: quiet_def printable_def patch_tool_def on_patch_err_def Let_def
               split: if_splits option.splits sum.splits)
  qed
qed

lemma patch_tool_keeps_quiet:
  assumes "patch_tool t s = (s', log1, r)" and "quiet (s a)"
  shows "quiet (s' a)"
proof (cases "a = tool_fn t")
  case True
  with assms quiet_patch_tool [of s t] show ?thesis by auto
next
  case False
  with assms patch_tool_frame [OF assms(1) False] show ?thesis by simp
qed

lemma patch_tool_inert:
  assumes "patch_tool t s = (s', log1, r)"
    and "isl (signature (s a)) \<or> (annotations (s a) = None \<and> set_annotations (s a) \<noteq> None)"
  shows "s' a = s a"
  using assms
  by (cases "a = tool_fn t")
     (auto simp: patch_tool_def on_patch_err_def Let_def
           split: sum.splits option.splits prod.splits if_splits)

section \<open>The loop over the tools\<close>

lemma sanitize_output:
  "sanitize ts s acc = (s', log1, Inr fs) \<Longrightarrow> fs = acc @ map tool_fn ts"
proof (induction ts arbitrary: s acc log1)
  case Nil
  then show ?case by simp
next
  case (Cons t ts)
  obtain s1 l1 r1 where pt: "patch_tool t s = (s1, l1, r1)" by (cases "patch_tool t s")
  obtain s2 l2 r2 where sa: "sanitize ts s1 (acc @ [tool_fn t]) = (s2, l2, r2)"
    by (cases "sanitize ts s1 (acc @ [tool_fn t])")
  from Cons.prems pt sa have "r1 = None" and "s2 = s'" and "r2 = Inr fs"
    by (auto split: option.splits)
  with sa Cons.IH [of s1 "acc @ [tool_fn t]" l2] show ?case by simp
qed

text \<open>A property of stores that every single patch keeps is kept by the loop.\<close>

lemma sanitize_invariant:
  assumes step: "\<And>t s s' l r. patch_tool t s = (s', l, r) \<Longrightarrow> Q s \<Longrightarrow> Q s'"
  shows "sanitize ts s acc = (s', log1, r) \<Longrightarrow> Q s \<Longrightarrow> Q s'"
proof (induction ts arbitrary: s acc log1 s' r)
  case Nil
  then show ?case by simp
next
  case (Cons t ts)
  obtain s1 l1 r1 where pt: "patch_tool t s = (s1, l1, r1)" by (cases "patch_tool t s")
  have q1: "Q s1" using step [OF pt] Cons.prems(2) .
  show ?case
  proof (cases r1)
    case None
    obtain s2 l2 r2 where sa: "sanitize ts s1 (acc @ [tool_fn t]) = (s2, l2, r2)"
      by (cases "sanitize ts s1 (acc @ [tool_fn t])")
    from Cons.prems pt None sa have "s' = s2" by simp
    with Cons.IH [OF sa q1] show ?thesis by simp
  next
    case (Some e)
    with Cons.prems pt q1 show ?thesis by simp
  qed
qed

lemma sanitize_fields:
  assumes "sanitize ts s acc = (s', log1, r)"
  shows "signature (s' a) = signature (s a) \<and> set_annotations (s' a) = set_annotations (s a)"
  using assms
  by (rule sanitize_invariant
        [where Q = "\<lambda>x. signature (x a) = signature (s a) \<and> set_annotations (x a) = set_annotations (s a)", rotated])
     (simp_all add: patch_tool_fields)

lemma sanitize_inert:
  assumes "sanitize ts s acc = (s', log1, r)"
    and "isl (signature (s a)) \<or> (annotations (s a) = None \<and> set_annotations (s a) \<noteq> None)"
  shows "s' a = s a"
  using assms(1)
  by (rule sanitize_invariant [where Q = "\<lambda>x. x a = s a", rotated])
     (use assms(2) in \<open>auto dest: patch_tool_inert [where a = a]\<close>)

lemma sanitize_keeps_quiet:
  assumes "sanitize ts s acc = (s', log1, r)" and "quiet (s a)"
  shows "quiet (s' a)"
  using assms(1)
  by (rule sanitize_invariant [where Q = "\<lambda>x. quiet (x a)", rotated])
     (use assms(2) in \<open>auto dest: patch_tool_keeps_quiet\<close>)

lemma sanitize_declared:
  assumes "sanitize ts s acc = (s', log1, r)"
  shows "declared_type (s' a) n = declared_type (s a) n \<or>
         (declared_type (s a) n = None \<and> declared_type (s' a) n = Some TStr \<and>
          a \<in> tool_fn ` set ts \<and> (\<exists>ps. signature (s a) = Inr ps \<and> none_default ps n))"
  using assms
proof (induction ts arbitrary: s acc log1 s' r)
  case Nil
  then show ?case by simp
next
  case (Cons t ts)
  obtain s1 l1 r1 where pt: "patch_tool t s = (s1, l1, r1)" by (cases "patch_tool t s")
  note d1 = patch_tool_declared [OF pt, of a n]
  show ?case
  proof (cases r1)
    case None
    obtain s2 l2 r2 where sa: "sanitize ts s1 (acc @ [tool_fn t]) = (s2, l2, r2)"
      by (cases "sanitize ts s1 (acc @ [tool_fn t])")
    from Cons.prems pt None sa have eq: "s' = s2" by simp
    from Cons.IH [OF sa] d1 patch_tool_fields [OF pt, of a] show ?thesis
      unfolding eq by auto
  next
    case (Some e)
    with Cons.prems pt have "s' = s1" by simp
    with d1 show ?thesis by auto
  qed
qed

lemma sanitize_quiet_all:
  "sanitize ts s acc = (s', log1, Inr fs) \<Longrightarrow> t \<in> set ts \<Longrightarrow> quiet (s' (tool_fn t))"
proof (induction ts arbitrary: s acc log1)
  case Nil
  then show ?case by simp
next
  case (Cons u ts)
  obtain s1 l1 r1 where pt: "patch_tool u s = (s1, l1, r1)" by (cases "patch_tool u s")
  obtain s2 l2 r2 where sa: "sanitize ts s1 (acc @ [tool_fn u]) = (s2, l2, r2)"
    by (cases "sanitize ts s1 (acc @ [tool_fn u])")
  from Cons.prems(1) pt sa have r1: "r1 = None" and eq: "s' = s2" and r2: "r2 = Inr fs"
    by (auto split: option.splits)
  show ?case
  proof (cases "t = u")
    case True
    have "quiet (s1 (tool_fn u))" using patch_tool_quiet pt r1 by blast
    then show ?thesis using sanitize_keeps_quiet [OF sa] True eq by simp
  next
    case False
    with Cons.prems(2) have "t \<in> set ts" by simp
    with Cons.IH sa r2 eq show ?thesis by blast
  qed
qed

lemma sanitize_quiet_id:
  "\<forall>t \<in> set ts. quiet (s (tool_fn t)) \<Longrightarrow>
   \<exists>log1. sanitize ts s acc = (s, log1, Inr (acc @ map tool_fn ts))"
proof (induction ts arbitrary: acc)
  case Nil
  then show ?case by simp
next
  case (Cons t ts)
  from quiet_patch_tool [of s t] Cons.prems obtain l1 where pt: "patch_tool t s = (s, l1, None)"
    by auto
  from Cons.prems have "\<forall>t \<in> set ts. quiet (s (tool_fn t))" by simp
  from Cons.IH [OF this, of "acc @ [tool_fn t]"]
  obtain l2 where "sanitize ts s (acc @ [tool_fn t]) = (s, l2, Inr ((acc @ [tool_fn t]) @ map tool_fn ts))"
    by auto
  with pt show ?case by simp
qed

lemma sanitize_log:
  "sanitize ts s acc = (s', log1, r) \<Longrightarrow> ev \<in> set log1 \<Longrightarrow> \<exists>m. ev = Log WARNING m \<or> ev = Log DEBUG m"
proof (induction ts arbitrary: s acc log1 s' r)
  case Nil
  then show ?case by simp
next
  case (Cons t ts)
  obtain s1 l1 r1 where pt: "patch_tool t s = (s1, l1, r1)" by (cases "patch_tool t s")
  show ?case
  proof (cases r1)
    case None
    obtain s2 l2 r2 where sa: "sanitize ts s1 (acc @ [tool_fn t]) = (s2, l2, r2)"
      by (cases "sanitize ts s1 (acc @ [tool_fn t])")
    from Cons.prems pt None sa have "log1 = l1 @ l2" by simp
    with Cons.prems(2) patch_tool_log [OF pt] Cons.IH [OF sa] show ?thesis by auto
  next
    case (Some e)
    with Cons.prems pt patch_tool_log [OF pt] show ?thesis by auto
  qed
qed


lemma none_default_distinct:
  "distinct (map pname ps) \<Longrightarrow> p \<in> set ps \<Longrightarrow> none_default ps (pname p) = (pdefault p = DNone)"
  by (auto simp: none_default_def list_ex_iff distinct_map inj_on_def)


lemma sanitize_returns:
  "\<forall>t \<in> set ts. raises_only_Exception (s (tool_fn t)) \<Longrightarrow>
   \<exists>s' log1. sanitize ts s acc = (s', log1, Inr (acc @ map tool_fn ts))"
proof (induction ts arbitrary: s acc)
  case Nil
  then show ?case by simp
next
  case (Cons t ts)
  obtain s1 l1 r1 where pt: "patch_tool t s = (s1, l1, r1)" by (cases "patch_tool t s")
  have "raises_only_Exception (s (tool_fn t))" using Cons.prems by simp
  with pt have r1: "r1 = None"
    by (auto simp: patch_tool_def on_patch_err_def raises_only_Exception_def printable_def Let_def
             split: sum.splits option.splits prod.splits if_splits)
  have "\<forall>u \<in> set ts. raises_only_Exception (s1 (tool_fn u))"
    using Cons.prems patch_tool_fields [OF pt]
    by (simp add: raises_only_Exception_def)
  from Cons.IH [OF this, of "acc @ [tool_fn t]"]
  obtain s2 l2 where "sanitize ts s1 (acc @ [tool_fn t]) = (s2, l2, Inr ((acc @ [tool_fn t]) @ map tool_fn ts))"
    by blast
  with pt r1 show ?case by simp
qed


text \<open>
  An \<^verbatim>\<open>Exception\<close> that line 48 cannot format leaves the loop from inside the inner
  handler, with no warning logged.
\<close>

lemma unprintable_leaves_loop:
  "signature (s (tool_fn t)) = Inl (Unprintable True e') \<Longrightarrow>
   sanitize (t # ts) s acc = (s, [], Inl e')"
  by (simp add: patch_tool_def on_patch_err_def)

lemma patch_tool_keeps_dict:
  "patch_tool t s = (s', log1, r) \<Longrightarrow> annotations (s a) \<noteq> None \<Longrightarrow> annotations (s' a) \<noteq> None"
  by (cases "a = tool_fn t")
     (auto simp: patch_tool_def on_patch_err_def Let_def
           split: sum.splits option.splits prod.splits if_splits)

lemma sanitize_keeps_dict:
  assumes "sanitize ts s acc = (s', log1, r)" and "annotations (s a) \<noteq> None"
  shows "annotations (s' a) \<noteq> None"
  using assms(1)
  by (rule sanitize_invariant [where Q = "\<lambda>x. annotations (x a) \<noteq> None", rotated])
     (use assms(2) in \<open>auto dest: patch_tool_keeps_dict\<close>)

lemma sanitize_closes:
  assumes "sanitize ts s acc = (s', log1, Inr fs)" and "t \<in> set ts"
    and "signature (s (tool_fn t)) = Inr ps" and "annotations (s (tool_fn t)) \<noteq> None"
    and "p \<in> set ps" and "pdefault p = DNone"
  shows "declared_type (s' (tool_fn t)) (pname p) \<noteq> None"
proof -
  have q: "quiet (s' (tool_fn t))" using sanitize_quiet_all [OF assms(1,2)] .
  have sg: "signature (s' (tool_fn t)) = Inr ps"
    using sanitize_fields [OF assms(1), of "tool_fn t"] assms(3) by simp
  from sanitize_keeps_dict [OF assms(1,4)]
  obtain h where h: "annotations (s' (tool_fn t)) = Some h" by auto
  from q sg h have "closed_hints ps h" by (simp add: quiet_def)
  with assms(5,6) have "map_of h (pname p) \<noteq> None"
    by (auto simp: closed_hints_def list_all_iff)
  with h show ?thesis by (simp add: declared_type_def)
qed

section \<open>Sample runs of the sanitizer\<close>

lemmas sample_defs = registry_def get_weather_def bound_lookup_def builtin_sorted_def
  opaque_callable_def forecast_def weather_tool_def lookup_tool_def sorted_tool_def
  opaque_tool_def forecast_tool_def

lemmas run_defs = patch_tool_def on_patch_err_def Let_def

lemma run_plain:
  "sanitize [forecast_tool, weather_tool] registry [] =
   (registry(4 := forecast\<lparr>annotations := Some [(''days'', TStr)]\<rparr>,
             0 := get_weather\<lparr>annotations := Some [(''city'', TStr)]\<rparr>),
    [Log DEBUG ''Patched type hints for tool: forecast'',
     Log DEBUG ''Patched type hints for tool: get_weather''],
    Inr [4, 0])"
  by (simp add: run_defs sample_defs)

lemma run_weather:
  "sanitize [weather_tool] registry [] =
   (registry(0 := get_weather\<lparr>annotations := Some [(''city'', TStr)]\<rparr>),
    [Log DEBUG ''Patched type hints for tool: get_weather''],
    Inr [0])"
  by (simp add: run_defs sample_defs)

lemma run_method:
  "sanitize [lookup_tool] registry [] =
   (registry(1 := bound_lookup\<lparr>annotations := Some [(''key'', TStr)]\<rparr>),
    [Log WARNING ''Could not patch tool lookup: method object has no attribute __annotations__''],
    Inr [1])"
  by (simp add: run_defs sample_defs)


lemma run_faulty:
  "sanitize [sorted_tool, opaque_tool, weather_tool] registry [] =
   (registry(0 := get_weather\<lparr>annotations := Some [(''city'', TStr)]\<rparr>),
    [Log WARNING ''Could not patch tool sorted: builtin_function_or_method object has no attribute __annotations__'',
     Log WARNING ''Could not patch tool opaque: no signature found'',
     Log DEBUG ''Patched type hints for tool: get_weather''],
    Inr [2, 3, 0])"
  by (simp add: run_defs sample_defs)

section \<open>What the sanitizer does to the descriptors\<close>




text \<open>
  C10. A parameter with no declared type whose default is not \<^verbatim>\<open>None\<close> (it has no
  default at all, or another default) has no declared type after the sanitizer either,
  whatever the tools are and however the loop ends; its signature stays as it was. The
  rewrite fires only on the default \<^verbatim>\<open>None\<close>.
\<close>

theorem sanitize_leaves_other_defaults:
  assumes "sanitize tools s [] = (s', log1, r)"
    and "signature (s a) = Inr ps" and "distinct (map pname ps)"
    and "p \<in> set ps" and "pdefault p \<noteq> DNone"
    and "declared_type (s a) (pname p) = None"
  shows "declared_type (s' a) (pname p) = None \<and> signature (s' a) = Inr ps"
  using sanitize_declared [OF assms(1), of a "pname p"] sanitize_fields [OF assms(1), of a]
    none_default_distinct [OF assms(3,4)] assms(2,5,6)
  by auto

theorem sanitize_leaves_other_defaults_witness:
  "\<lparr>pname = ''city'', pdefault = NoDefault\<rparr> \<in> set [\<lparr>pname = ''city'', pdefault = NoDefault\<rparr>, \<lparr>pname = ''days'', pdefault = DNone\<rparr>] \<and>
   declared_type (registry 4) ''city'' = None \<and>
   declared_type (fst (sanitize [forecast_tool, weather_tool] registry []) 4) ''city'' = None \<and>
   declared_type (fst (sanitize [forecast_tool, weather_tool] registry []) 4) ''days'' = Some TStr"
proof -
  have sg: "signature (registry 4) =
      Inr [\<lparr>pname = ''city'', pdefault = NoDefault\<rparr>, \<lparr>pname = ''days'', pdefault = DNone\<rparr>]"
    by (simp add: sample_defs)
  have di: "distinct (map pname [\<lparr>pname = ''city'', pdefault = NoDefault\<rparr>, \<lparr>pname = ''days'', pdefault = DNone\<rparr>])"
    by simp
  have mem: "\<lparr>pname = ''city'', pdefault = NoDefault\<rparr> \<in> set [\<lparr>pname = ''city'', pdefault = NoDefault\<rparr>, \<lparr>pname = ''days'', pdefault = DNone\<rparr>]"
    by simp
  have nd: "pdefault \<lparr>pname = ''city'', pdefault = NoDefault\<rparr> \<noteq> DNone" by simp
  have un: "declared_type (registry 4) (pname \<lparr>pname = ''city'', pdefault = NoDefault\<rparr>) = None"
    by (simp add: declared_type_def sample_defs)
  from sanitize_leaves_other_defaults [OF run_plain sg di mem nd un] un
  show ?thesis
    unfolding run_plain
    by (simp add: declared_type_def sample_defs)
qed

text \<open>
  C5 as stated fails: after the sanitizer has run over the one tool \<^verbatim>\<open>get_weather\<close>, the
  registry's own callable at address 0 has the annotation \<^verbatim>\<open>city: str\<close> it did not
  have before, and \<^verbatim>\<open>tools_functions\<close> holds that very callable.
\<close>

theorem sanitize_mutates_registry_counterexample:
  "annotations (registry 0) = Some [] \<and>
   annotations (fst (sanitize [weather_tool] registry []) 0) = Some [(''city'', TStr)] \<and>
   fst (sanitize [weather_tool] registry []) 0 \<noteq> registry 0 \<and>
   snd (snd (sanitize [weather_tool] registry [])) = Inr [tool_fn weather_tool]"
  unfolding run_weather
  by (simp add: sample_defs)

text \<open>
  C5, as the code has it. The sanitizer makes no new descriptor values: when the loop
  returns, \<^verbatim>\<open>tools_functions\<close> is the registry's own callables, in the order of the
  tools, and the types were written into their annotations in place: a listed callable
  that can be inspected and has annotations of its own has, itself, a declared type for
  each of its parameters whose default is \<^verbatim>\<open>None\<close>. What the sanitizer leaves
  alone: every signature, the way each callable answers an assignment of its
  annotations, and every annotation that was there; an annotation is only ever added,
  for a name that had none, and it is \<^verbatim>\<open>str\<close>.
\<close>

theorem sanitize_patches_in_place:
  assumes "sanitize tools s [] = (s', log1, r)"
  shows "(\<forall>tools_functions. r = Inr tools_functions \<longrightarrow>
            tools_functions = map tool_fn tools \<and>
            (\<forall>t \<in> set tools. \<forall>ps. signature (s (tool_fn t)) = Inr ps \<and>
                annotations (s (tool_fn t)) \<noteq> None \<longrightarrow>
                (\<forall>p \<in> set ps. pdefault p = DNone \<longrightarrow>
                   declared_type (s' (tool_fn t)) (pname p) \<noteq> None))) \<and>
         (\<forall>a. signature (s' a) = signature (s a) \<and> set_annotations (s' a) = set_annotations (s a)) \<and>
         (\<forall>a n. declared_type (s' a) n = declared_type (s a) n \<or>
                 (declared_type (s a) n = None \<and> declared_type (s' a) n = Some TStr))"
proof (intro conjI allI impI ballI)
  fix fs assume "r = Inr fs"
  with assms sanitize_output [of tools s "[]" s' log1 fs] show "fs = map tool_fn tools" by simp
next
  fix fs t ps p
  assume "r = Inr fs" and "t \<in> set tools"
    and "signature (s (tool_fn t)) = Inr ps \<and> annotations (s (tool_fn t)) \<noteq> None"
    and "p \<in> set ps" and "pdefault p = DNone"
  with assms show "declared_type (s' (tool_fn t)) (pname p) \<noteq> None"
    using sanitize_closes [of tools s "[]" s' log1 fs t ps p] by simp
next
  fix a
  show "signature (s' a) = signature (s a)" using sanitize_fields [OF assms] by simp
  show "set_annotations (s' a) = set_annotations (s a)" using sanitize_fields [OF assms] by simp
next
  fix a n
  show "declared_type (s' a) n = declared_type (s a) n \<or>
        (declared_type (s a) n = None \<and> declared_type (s' a) n = Some TStr)"
    using sanitize_declared [OF assms, of a n] by blast
qed

theorem sanitize_patches_in_place_witness:
  "snd (snd (sanitize [weather_tool] registry [])) = Inr (map tool_fn [weather_tool]) \<and>
   weather_tool \<in> set [weather_tool] \<and>
   signature (registry (tool_fn weather_tool)) = Inr [\<lparr>pname = ''city'', pdefault = DNone\<rparr>] \<and>
   annotations (registry (tool_fn weather_tool)) \<noteq> None \<and>
   signature (fst (sanitize [weather_tool] registry []) 0) = signature (registry 0) \<and>
   declared_type (registry 0) ''city'' = None \<and>
   declared_type (fst (sanitize [weather_tool] registry []) 0) ''city'' = Some TStr"
  using sanitize_patches_in_place [OF run_weather]
  unfolding run_weather
  by (simp add: declared_type_def sample_defs)

text \<open>
  C6. Sanitizing is idempotent: running the sanitizer again over the same tools, on the
  callables as the first run left them, ends with the same callables and the same
  \<^verbatim>\<open>tools_functions\<close> as the first run; and a first run that an exception left
  is not run again.
\<close>

theorem sanitize_idempotent: "sanitized_twice tools s = sanitized tools s"
proof -
  obtain s1 log1 r where sa: "sanitize tools s [] = (s1, log1, r)" by (cases "sanitize tools s []")
  show ?thesis
  proof (cases r)
    case (Inl e)
    with sa show ?thesis by (simp add: sanitized_twice_def sanitized_def)
  next
    case (Inr fs)
    have fs: "fs = map tool_fn tools" using sanitize_output sa Inr by fastforce
    have "\<forall>t \<in> set tools. quiet (s1 (tool_fn t))"
      using sanitize_quiet_all sa Inr by blast
    from sanitize_quiet_id [OF this, of "[]"]
    obtain log2 where "sanitize tools s1 [] = (s1, log2, Inr (map tool_fn tools))" by auto
    with sa Inr fs show ?thesis by (simp add: sanitized_twice_def sanitized_def)
  qed
qed

theorem sanitize_idempotent_witness:
  "sanitized_twice [forecast_tool, weather_tool] registry = sanitized [forecast_tool, weather_tool] registry \<and>
   snd (sanitized [forecast_tool, weather_tool] registry) = Inr [4, 0] \<and>
   fst (sanitized [forecast_tool, weather_tool] registry) 0 \<noteq> registry 0"
  using sanitize_idempotent [of "[forecast_tool, weather_tool]" registry]
  unfolding sanitized_def run_plain
  by (simp add: sample_defs)

text \<open>
  C7 as stated fails on a bound method: \<^verbatim>\<open>hints\<close> is the dict of the method's
  function, line 42 has written \<^verbatim>\<open>key: str\<close> into it when the assignment of line 45
  raises, so the rewrite raises, the warning is logged, and the descriptor handed on is
  not as it came in.
\<close>

theorem sanitize_fault_counterexample:
  "set_annotations (registry 1) = Some (Exn True ''method object has no attribute __annotations__'') \<and>
   fst (snd (sanitize [lookup_tool] registry [])) =
     [Log WARNING ''Could not patch tool lookup: method object has no attribute __annotations__''] \<and>
   annotations (registry 1) = Some [] \<and>
   annotations (fst (sanitize [lookup_tool] registry []) 1) = Some [(''key'', TStr)] \<and>
   fst (sanitize [lookup_tool] registry []) 1 \<noteq> registry 1"
  unfolding run_method
  by (simp add: sample_defs)

text \<open>
  C7, as the code has it. When whatever inspecting or rewriting a listed callable can
  raise is an instance of \<^verbatim>\<open>Exception\<close> with a text (line 47 catches it and line 48
  can format it), no exception leaves the sanitizer and
  \<^verbatim>\<open>tools_functions\<close> is the callables of all the tools, in the order of the tools. A
  callable whose inspection raises, and a callable with no annotations of its own on
  which the assignment raises, is after the run exactly as it was before.
\<close>

theorem sanitize_fault_isolated:
  assumes "\<forall>t \<in> set tools. raises_only_Exception (s (tool_fn t))"
  shows "\<exists>s' log1. sanitize tools s [] = (s', log1, Inr (map tool_fn tools)) \<and>
           (\<forall>t \<in> set tools.
              isl (signature (s (tool_fn t))) \<or>
              (annotations (s (tool_fn t)) = None \<and> set_annotations (s (tool_fn t)) \<noteq> None)
              \<longrightarrow> s' (tool_fn t) = s (tool_fn t))"
proof -
  from sanitize_returns [OF assms, of "[]"]
  obtain s' log1 where sa: "sanitize tools s [] = (s', log1, Inr (map tool_fn tools))" by auto
  show ?thesis using sa sanitize_inert [OF sa] by blast
qed

theorem sanitize_fault_isolated_witness:
  "raises_only_Exception (registry 2) \<and> raises_only_Exception (registry 3) \<and>
   raises_only_Exception (registry 0) \<and>
   isl (signature (registry 3)) \<and> annotations (registry 2) = None \<and>
   snd (snd (sanitize [sorted_tool, opaque_tool, weather_tool] registry [])) = Inr [2, 3, 0] \<and>
   fst (sanitize [sorted_tool, opaque_tool, weather_tool] registry []) 2 = registry 2 \<and>
   fst (sanitize [sorted_tool, opaque_tool, weather_tool] registry []) 3 = registry 3"
proof -
  have "\<forall>t \<in> set [sorted_tool, opaque_tool, weather_tool]. raises_only_Exception (registry (tool_fn t))"
    by (simp add: raises_only_Exception_def printable_def sample_defs)
  from sanitize_fault_isolated [OF this]
  show ?thesis
    unfolding run_faulty
    by (simp add: raises_only_Exception_def printable_def sample_defs)
qed

section \<open>The trace of an invocation\<close>

lemma sanitize_log_counts:
  assumes "sanitize ts s acc = (s', log1, r)"
  shows "filter is_post log1 = []" and "filter is_primary_send log1 = []"
    and "filter is_notification_send log1 = []" and "filter is_network_call log1 = []"
    and "SENT_OK \<notin> set log1"
  using sanitize_log [OF assms]
  by (fastforce simp: filter_empty_conv SENT_OK_def)+

lemma primary_send_shape:
  assumes "primary_send env w txt = (tr, r)"
  shows "posts tr = 1 \<and> primary_sends tr = 1 \<and> notification_sends tr = 0 \<and>
         (r = None) = (SENT_OK \<in> set tr)"
  using assms
  by (auto simp: primary_send_def posts_def primary_sends_def notification_sends_def SENT_OK_def
           Let_def split: option.splits)

lemma processing_shape:
  assumes "processing env w s = (tr, r)"
  shows "notification_sends tr = 0 \<and> primary_sends tr \<le> 1 \<and> posts tr = primary_sends tr \<and>
         (r = None) = (SENT_OK \<in> set tr) \<and> (r = None \<longrightarrow> primary_sends tr = 1)"
proof (cases "client_result w")
  case (Some e)
  with assms show ?thesis
    by (auto simp: processing_def posts_def primary_sends_def notification_sends_def SENT_OK_def)
next
  case None
  note cl = this
  show ?thesis
  proof (cases "list_tools_result w")
    case (Inl e)
    with assms cl show ?thesis
      by (auto simp: processing_def posts_def primary_sends_def notification_sends_def SENT_OK_def)
  next
    case (Inr tools)
    note lt = this
    obtain s1 log1 r1 where sa: "sanitize tools s [] = (s1, log1, r1)"
      by (cases "sanitize tools s []")
    note lc = sanitize_log_counts [OF sa]
    show ?thesis
    proof (cases r1)
      case (Inl e)
      with assms cl lt sa lc show ?thesis
        by (auto simp: processing_def posts_def primary_sends_def notification_sends_def SENT_OK_def)
    next
      case (Inr fs)
      note sr = this
      show ?thesis
      proof (cases "generate_content_result w")
        case (Inl e)
        with assms cl lt sa sr lc show ?thesis
          by (auto simp: processing_def posts_def primary_sends_def notification_sends_def
                SENT_OK_def Let_def)
      next
        case (Inr reply)
        obtain tr3 r3 where ps: "primary_send env w (final_text_of reply) = (tr3, r3)"
          by (cases "primary_send env w (final_text_of reply)")
        from assms cl lt sa sr Inr ps
        have tr: "tr = [Client (api_key env), ListTools] @ log1 @
                 [Log INFO (''Loaded and sanitized '' @ str_nat (length fs) @ '' tools from main.py''),
                  GenerateContent ''gemini-2.5-flash'' (message env) fs,
                  Log INFO (''AI Response truncated: '' @ take 100 (final_text_of reply) @ ''...'')] @ tr3"
          and r: "r = r3"
          by (auto simp: processing_def Let_def)
        from primary_send_shape [OF ps] lc show ?thesis
          unfolding tr r
          by (auto simp: posts_def primary_sends_def notification_sends_def SENT_OK_def)
      qed
    qed
  qed
qed

lemma printable_str_of: "printable e \<Longrightarrow> str_of e = Inr (exn_str e)"
  by (cases e) (simp_all add: printable_def)

lemma recover_shape:
  "printable e \<Longrightarrow>
   recover env w e =
     ([Log ERROR (''Error in agent processing: '' @ exn_str e),
       Post (telegram_url (bot_token env))
         [(''chat_id'', to_json (chat_id env)), (''text'', JStr (take 4000 (ERROR_PREFIX @ exn_str e)))]],
      None)"
  by (simp add: recover_def printable_str_of Let_def split: option.splits)

lemma recover_unprintable: "str_of e = Inl e' \<Longrightarrow> recover env w e = ([], Some e')"
  by (simp add: recover_def)

lemma recover_ignores_notify:
  "recover env (w\<lparr>notify_post_result := x\<rparr>) e = recover env w e"
  by (simp add: recover_def Let_def split: sum.splits option.splits)

lemma run_opaque:
  "sanitize [opaque_tool] registry [] =
   (registry, [Log WARNING ''Could not patch tool opaque: no signature found''], Inr [3])"
  by (simp add: run_defs sample_defs)

lemma str_nat_1: "str_nat (Suc 0) = ''1''"
  by code_simp

lemmas main_defs = main_def processing_def primary_send_def recover_def py_all_def truthy_def
  final_text_of_def Let_def py_str_def to_json_def telegram_url_def

lemmas world_defs = sunny_world_def http_error_world_def interrupted_world_def offline_world_def
  noisy_world_def unprintable_world_def empty_text_world_def sample_env_def

lemmas count_defs = posts_def primary_sends_def notification_sends_def SENT_OK_def


lemma main_interrupted:
  "main sample_env interrupted_world registry =
     ([Log INFO ''Processing message for chat 42: What's the weather tomorrow?'',
       Client (Some ''key''), ListTools,
       Log DEBUG ''Patched type hints for tool: get_weather'',
       Log INFO ''Loaded and sanitized 1 tools from main.py'',
       GenerateContent ''gemini-2.5-flash'' (Some ''What's the weather tomorrow?'') [0]],
      Some (Exn False []))"
  by (simp add: main_defs world_defs run_weather str_nat_1 del: sanitize.simps)

lemma main_offline:
  "main sample_env offline_world registry =
     ([Log INFO ''Processing message for chat 42: What's the weather tomorrow?'',
       Client (Some ''key''), ListTools,
       Log DEBUG ''Patched type hints for tool: get_weather'',
       Log INFO ''Loaded and sanitized 1 tools from main.py'',
       GenerateContent ''gemini-2.5-flash'' (Some ''What's the weather tomorrow?'') [0],
       Log ERROR ''Error in agent processing: Connection reset by peer'',
       Post ''https://api.telegram.org/bottoken/sendMessage''
         [(''chat_id'', JStr ''42''), (''text'', JStr ''Sorry, I encountered an error: Connection reset by peer'')]],
      None)"
  by (simp add: main_defs world_defs run_weather str_nat_1 ERROR_PREFIX_def del: sanitize.simps)

lemma main_noisy:
  "main sample_env noisy_world registry =
     ([Log INFO ''Processing message for chat 42: What's the weather tomorrow?'',
       Client (Some ''key''), ListTools,
       Log WARNING ''Could not patch tool opaque: no signature found'',
       Log INFO ''Loaded and sanitized 1 tools from main.py'',
       GenerateContent ''gemini-2.5-flash'' (Some ''What's the weather tomorrow?'') [3],
       Log ERROR (''Error in agent processing: '' @ replicate 5000 CHR ''x''),
       Post ''https://api.telegram.org/bottoken/sendMessage''
         [(''chat_id'', JStr ''42''),
          (''text'', JStr (''Sorry, I encountered an error: '' @ replicate 3969 CHR ''x''))]],
      None)"
  by (simp add: main_defs world_defs run_opaque str_nat_1 ERROR_PREFIX_def del: sanitize.simps)

lemma main_empty_text:
  "main sample_env empty_text_world registry =
     ([Log INFO ''Processing message for chat 42: What's the weather tomorrow?'',
       Client (Some ''key''), ListTools,
       Log DEBUG ''Patched type hints for tool: get_weather'',
       Log INFO ''Loaded and sanitized 1 tools from main.py'',
       GenerateContent ''gemini-2.5-flash'' (Some ''What's the weather tomorrow?'') [0],
       Log INFO ''AI Response truncated: I couldn't process that request properly. Please try again....'',
       Post ''https://api.telegram.org/bottoken/sendMessage''
         [(''chat_id'', JStr ''42''),
          (''text'', JStr ''I couldn't process that request properly. Please try again.''),
          (''parse_mode'', JStr ''Markdown'')],
       Log INFO ''Message sent to Telegram successfully''],
      None)"
  by (simp add: main_defs world_defs run_weather str_nat_1 FALLBACK_TEXT_def del: sanitize.simps)

lemma main_split:
  assumes "py_all [api_key env, bot_token env, chat_id env, message env]"
    and "processing env w s = (tr1, r1)"
  shows "main env w s =
     (case r1 of
        None \<Rightarrow> (Log INFO (''Processing message for chat '' @ py_str (chat_id env) @ '': '' @ py_str (message env)) # tr1, None)
      | Some e \<Rightarrow>
          if is_Exception e
          then (case str_of e of
                  Inl e' \<Rightarrow>
                    (Log INFO (''Processing message for chat '' @ py_str (chat_id env) @ '': '' @ py_str (message env)) # tr1, Some e')
                | Inr msg \<Rightarrow>
                    (Log INFO (''Processing message for chat '' @ py_str (chat_id env) @ '': '' @ py_str (message env)) # tr1 @
                     [Log ERROR (''Error in agent processing: '' @ msg),
                      Post (telegram_url (bot_token env))
                        [(''chat_id'', to_json (chat_id env)), (''text'', JStr (take 4000 (ERROR_PREFIX @ msg)))]],
                     None))
          else (Log INFO (''Processing message for chat '' @ py_str (chat_id env) @ '': '' @ py_str (message env)) # tr1, Some e))"
  using assms by (simp add: main_def recover_def Let_def split: option.splits sum.splits)

lemma main_unprintable:
  "main sample_env unprintable_world registry =
     ([Log INFO ''Processing message for chat 42: What's the weather tomorrow?'',
       Client (Some ''key''), ListTools,
       Log DEBUG ''Patched type hints for tool: get_weather'',
       Log INFO ''Loaded and sanitized 1 tools from main.py'',
       GenerateContent ''gemini-2.5-flash'' (Some ''What's the weather tomorrow?'') [0]],
      Some (Exn True ''__str__ returned non-string (type int)''))"
  by (simp add: main_defs world_defs run_weather str_nat_1 del: sanitize.simps)

lemma main_sunny:
  "main sample_env sunny_world registry =
     ([Log INFO ''Processing message for chat 42: What's the weather tomorrow?'',
       Client (Some ''key''), ListTools,
       Log DEBUG ''Patched type hints for tool: get_weather'',
       Log INFO ''Loaded and sanitized 1 tools from main.py'',
       GenerateContent ''gemini-2.5-flash'' (Some ''What's the weather tomorrow?'') [0],
       Log INFO ''AI Response truncated: It will be sunny....'',
       Post ''https://api.telegram.org/bottoken/sendMessage''
         [(''chat_id'', JStr ''42''), (''text'', JStr ''It will be sunny.''), (''parse_mode'', JStr ''Markdown'')],
       Log INFO ''Message sent to Telegram successfully''],
      None)"
  by (simp add: main_defs world_defs run_weather str_nat_1 del: sanitize.simps)

lemma processing_offline:
  "processing sample_env offline_world registry =
     ([Client (Some ''key''), ListTools,
       Log DEBUG ''Patched type hints for tool: get_weather'',
       Log INFO ''Loaded and sanitized 1 tools from main.py'',
       GenerateContent ''gemini-2.5-flash'' (Some ''What's the weather tomorrow?'') [0]],
      Some (Exn True ''Connection reset by peer''))"
  by (simp add: main_defs world_defs run_weather str_nat_1 del: sanitize.simps)

lemma sample_env_present:
  "py_all [api_key sample_env, bot_token sample_env, chat_id sample_env, message sample_env]"
  by (simp add: py_all_def truthy_def sample_env_def)

text \<open>Which exceptions leave the body of the outer try.\<close>

lemma processing_raises:
  "(snd (processing env w s) = Some e) =
     (client_result w = Some e \<or>
      client_result w = None \<and>
        (list_tools_result w = Inl e \<or>
         (\<exists>tools. list_tools_result w = Inr tools \<and>
            (snd (snd (sanitize tools s [])) = Inl e \<or>
             isl (snd (snd (sanitize tools s []))) = False \<and>
               (generate_content_result w = Inl e \<or>
                isl (generate_content_result w) = False \<and>
                  (primary_post_result w = Some e \<or>
                   primary_post_result w = None \<and> raise_for_status_result w = Some e))))))"
  by (auto simp: processing_def primary_send_def Let_def
           split: option.splits sum.splits prod.splits)

lemma final_text_of_empty: "absent_or_empty reply \<Longrightarrow> final_text_of reply = FALLBACK_TEXT"
  by (auto simp: absent_or_empty_def final_text_of_def)

lemma processing_completed:
  assumes "client_result w = None" and "list_tools_result w = Inr tools"
    and "sanitize tools s [] = (s1, log1, Inr tools_functions)"
    and "generate_content_result w = Inr reply"
  shows "processing env w s =
     ([Client (api_key env), ListTools] @ log1 @
      [Log INFO (''Loaded and sanitized '' @ str_nat (length tools_functions) @ '' tools from main.py''),
       GenerateContent ''gemini-2.5-flash'' (message env) tools_functions,
       Log INFO (''AI Response truncated: '' @ take 100 (final_text_of reply) @ ''...'')] @
      fst (primary_send env w (final_text_of reply)),
      snd (primary_send env w (final_text_of reply)))"
  using assms by (simp add: processing_def Let_def split: prod.splits del: sanitize.simps)

lemma primary_send_post:
  "filter is_primary_send (fst (primary_send env w final_text)) =
     [Post (telegram_url (bot_token env))
        [(''chat_id'', to_json (chat_id env)), (''text'', JStr final_text),
         (''parse_mode'', JStr ''Markdown'')]]"
  by (simp add: primary_send_def Let_def split: option.splits)

lemma primary_send_ok:
  "primary_post_result w = None \<Longrightarrow> raise_for_status_result w = None \<Longrightarrow>
   primary_send env w final_text =
     ([Post (telegram_url (bot_token env))
        [(''chat_id'', to_json (chat_id env)), (''text'', JStr final_text),
         (''parse_mode'', JStr ''Markdown'')], SENT_OK], None)"
  by (simp add: primary_send_def Let_def SENT_OK_def)

lemma primary_send_ignores_notify:
  "primary_send env (w\<lparr>notify_post_result := x\<rparr>) final_text = primary_send env w final_text"
  by (simp add: primary_send_def Let_def cong: option.case_cong)

lemma processing_ignores_notify:
  "processing env (w\<lparr>notify_post_result := x\<rparr>) s = processing env w s"
  by (simp add: processing_def primary_send_ignores_notify Let_def
           cong: option.case_cong sum.case_cong prod.case_cong del: sanitize.simps)

section \<open>What an invocation sends\<close>




text \<open>
  C2 as stated fails on an invocation in which inspecting the only tool raises
  (\<^verbatim>\<open>no signature found\<close>) and the completion call then raises with a message of 5000
  characters. The inner handler of lines 47 and 48 takes the first exception, logs a
  warning and lets the loop go on: no notification is sent for it. The second reaches
  the outer handler, and the one notification sent is cut to 4000 characters: it
  contains the message of neither exception.
\<close>

theorem recovery_notification_counterexample:
  "list_tools_result noisy_world = Inr [opaque_tool] \<and>
   signature (registry (tool_fn opaque_tool)) = Inl (Exn True ''no signature found'') \<and>
   generate_content_result noisy_world = Inl (Exn True (replicate 5000 CHR ''x'')) \<and>
   filter is_notification_send (fst (main sample_env noisy_world registry)) =
     [Post ''https://api.telegram.org/bottoken/sendMessage''
        [(''chat_id'', JStr ''42''),
         (''text'', JStr (''Sorry, I encountered an error: '' @ replicate 3969 CHR ''x''))]] \<and>
   \<not> sublist ''no signature found'' (''Sorry, I encountered an error: '' @ replicate 3969 CHR ''x'') \<and>
   \<not> sublist (replicate 5000 CHR ''x'') (''Sorry, I encountered an error: '' @ replicate 3969 CHR ''x'')"
proof -
  have a: "\<not> sublist ''no signature found'' (''Sorry, I encountered an error: '' @ replicate 3969 CHR ''x'')"
  proof
    assume "sublist ''no signature found'' (''Sorry, I encountered an error: '' @ replicate 3969 CHR ''x'')"
    then have "set ''no signature found'' \<subseteq> set (''Sorry, I encountered an error: '' @ replicate 3969 CHR ''x'')"
      by (rule set_mono_sublist)
    then show False by simp
  qed
  have b: "\<not> sublist (replicate 5000 CHR ''x'') (''Sorry, I encountered an error: '' @ replicate 3969 CHR ''x'')"
  proof
    assume "sublist (replicate 5000 CHR ''x'') (''Sorry, I encountered an error: '' @ replicate 3969 CHR ''x'')"
    then have "length (replicate 5000 CHR ''x'') \<le> length (''Sorry, I encountered an error: '' @ replicate 3969 CHR ''x'')"
      by (rule sublist_length_le)
    then show False by simp
  qed
  show ?thesis
    unfolding main_noisy using a b
    by (simp add: world_defs sample_defs)
qed

text \<open>
  C2, as the code has it. When the four inputs are present and an instance of
  \<^verbatim>\<open>Exception\<close> that has a text (\<^verbatim>\<open>str(e)\<close> returns it) leaves the body of the
  outer try (lemma \<open>processing_raises\<close> lists
  where it can come from: the client, the tool fetch, the completion call, the primary
  post or \<^verbatim>\<open>raise_for_status\<close>), the invocation logs the error and attempts exactly
  one notification send, and returns. The text sent is the first 4000 characters of
  \<^verbatim>\<open>Sorry, I encountered an error: \<close> followed by the exception's message: it begins
  with that prefix, goes on with the first 3969 characters of the message, has at most
  4000 characters, and holds the whole message when that has at most 3969.
\<close>

theorem recovery_notification:
  assumes "py_all [api_key env, bot_token env, chat_id env, message env]"
    and "processing env w s = (tr1, Some e)" and "is_Exception e" and "printable e"
  shows "main env w s =
           (Log INFO (''Processing message for chat '' @ py_str (chat_id env) @ '': '' @ py_str (message env)) # tr1 @
            [Log ERROR (''Error in agent processing: '' @ exn_str e),
             Post (telegram_url (bot_token env))
               [(''chat_id'', to_json (chat_id env)),
                (''text'', JStr (take 4000 (ERROR_PREFIX @ exn_str e)))]],
            None) \<and>
         notification_sends (fst (main env w s)) = 1 \<and>
         take 4000 (ERROR_PREFIX @ exn_str e) = ERROR_PREFIX @ take 3969 (exn_str e) \<and>
         length (take 4000 (ERROR_PREFIX @ exn_str e)) \<le> 4000 \<and>
         (length (exn_str e) \<le> 3969 \<longrightarrow> take 4000 (ERROR_PREFIX @ exn_str e) = ERROR_PREFIX @ exn_str e)"
proof -
  have m: "main env w s =
           (Log INFO (''Processing message for chat '' @ py_str (chat_id env) @ '': '' @ py_str (message env)) # tr1 @
            [Log ERROR (''Error in agent processing: '' @ exn_str e),
             Post (telegram_url (bot_token env))
               [(''chat_id'', to_json (chat_id env)),
                (''text'', JStr (take 4000 (ERROR_PREFIX @ exn_str e)))]],
            None)"
    using main_split [OF assms(1,2)] assms(3) printable_str_of [OF assms(4)] by simp
  have n: "notification_sends tr1 = 0" using processing_shape [OF assms(2)] by simp
  have c: "notification_sends (fst (main env w s)) = 1"
    unfolding m using n by (simp add: notification_sends_def)
  have l: "length ERROR_PREFIX = 31" by (simp add: ERROR_PREFIX_def)
  have t: "take 4000 (ERROR_PREFIX @ exn_str e) = ERROR_PREFIX @ take 3969 (exn_str e)"
    using l by simp
  have b: "length (take 4000 (ERROR_PREFIX @ exn_str e)) \<le> 4000" by simp
  have a: "length (exn_str e) \<le> 3969 \<longrightarrow> take 4000 (ERROR_PREFIX @ exn_str e) = ERROR_PREFIX @ exn_str e"
    unfolding t by simp
  from m c t b a show ?thesis by (intro conjI)
qed

theorem recovery_notification_witness:
  "py_all [api_key sample_env, bot_token sample_env, chat_id sample_env, message sample_env] \<and>
   snd (processing sample_env offline_world registry) = Some (Exn True ''Connection reset by peer'') \<and>
   is_Exception (Exn True ''Connection reset by peer'') \<and>
   printable (Exn True ''Connection reset by peer'') \<and>
   notification_sends (fst (main sample_env offline_world registry)) = 1 \<and>
   last (fst (main sample_env offline_world registry)) =
     Post ''https://api.telegram.org/bottoken/sendMessage''
       [(''chat_id'', JStr ''42''),
        (''text'', JStr ''Sorry, I encountered an error: Connection reset by peer'')]"
proof -
  have ex: "is_Exception (Exn True ''Connection reset by peer'')" by simp
  have pt: "printable (Exn True ''Connection reset by peer'')" by (simp add: printable_def)
  from recovery_notification [OF sample_env_present processing_offline ex pt] sample_env_present
  show ?thesis
    unfolding processing_offline main_offline
    by (simp add: notification_sends_def printable_def)
qed

text \<open>
  C8. When the inputs are present, the stages up to the completion call raise nothing
  and the completion's text is \<^verbatim>\<open>None\<close> or empty, the invocation attempts the primary
  send, once, with the fallback text, which is not empty. Nothing on this path is an
  error: when the post succeeds the trace is the one of a successful run, with no error
  log and no notification.
\<close>

theorem empty_text_sends_fallback:
  assumes "py_all [api_key env, bot_token env, chat_id env, message env]"
    and "client_result w = None" and "list_tools_result w = Inr tools"
    and "sanitize tools s [] = (s1, log1, Inr tools_functions)"
    and "generate_content_result w = Inr reply" and "absent_or_empty reply"
  shows "filter is_primary_send (fst (main env w s)) =
           [Post (telegram_url (bot_token env))
              [(''chat_id'', to_json (chat_id env)), (''text'', JStr FALLBACK_TEXT),
               (''parse_mode'', JStr ''Markdown'')]] \<and>
         FALLBACK_TEXT \<noteq> [] \<and>
         (primary_post_result w = None \<and> raise_for_status_result w = None \<longrightarrow>
            main env w s =
              (Log INFO (''Processing message for chat '' @ py_str (chat_id env) @ '': '' @ py_str (message env)) #
               [Client (api_key env), ListTools] @ log1 @
               [Log INFO (''Loaded and sanitized '' @ str_nat (length tools_functions) @ '' tools from main.py''),
                GenerateContent ''gemini-2.5-flash'' (message env) tools_functions,
                Log INFO (''AI Response truncated: '' @ take 100 FALLBACK_TEXT @ ''...''),
                Post (telegram_url (bot_token env))
                  [(''chat_id'', to_json (chat_id env)), (''text'', JStr FALLBACK_TEXT),
                   (''parse_mode'', JStr ''Markdown'')],
                SENT_OK],
               None) \<and>
            notification_sends (fst (main env w s)) = 0)"
proof -
  note ft = final_text_of_empty [OF assms(6)]
  note pc = processing_completed [OF assms(2,3,4,5), of env, unfolded ft]
  note lc = sanitize_log_counts [OF assms(4)]
  note ms = main_split [OF assms(1) pc]
  have one: "filter is_primary_send (fst (main env w s)) =
           [Post (telegram_url (bot_token env))
              [(''chat_id'', to_json (chat_id env)), (''text'', JStr FALLBACK_TEXT),
               (''parse_mode'', JStr ''Markdown'')]]"
    unfolding ms using lc primary_send_post [of env w FALLBACK_TEXT]
    by (simp split: option.splits sum.splits)
  have two: "FALLBACK_TEXT \<noteq> []" by (simp add: FALLBACK_TEXT_def)
  have three: "main env w s =
              (Log INFO (''Processing message for chat '' @ py_str (chat_id env) @ '': '' @ py_str (message env)) #
               [Client (api_key env), ListTools] @ log1 @
               [Log INFO (''Loaded and sanitized '' @ str_nat (length tools_functions) @ '' tools from main.py''),
                GenerateContent ''gemini-2.5-flash'' (message env) tools_functions,
                Log INFO (''AI Response truncated: '' @ take 100 FALLBACK_TEXT @ ''...''),
                Post (telegram_url (bot_token env))
                  [(''chat_id'', to_json (chat_id env)), (''text'', JStr FALLBACK_TEXT),
                   (''parse_mode'', JStr ''Markdown'')],
                SENT_OK],
               None) \<and>
            notification_sends (fst (main env w s)) = 0"
    if ok: "primary_post_result w = None" "raise_for_status_result w = None"
    unfolding ms primary_send_ok [OF ok] using lc
    by (simp add: notification_sends_def SENT_OK_def)
  from one two three show ?thesis by blast
qed

theorem empty_text_sends_fallback_witness:
  "py_all [api_key sample_env, bot_token sample_env, chat_id sample_env, message sample_env] \<and>
   generate_content_result empty_text_world = Inr (Some []) \<and>
   absent_or_empty (Some []) \<and>
   filter is_primary_send (fst (main sample_env empty_text_world registry)) =
     [Post ''https://api.telegram.org/bottoken/sendMessage''
        [(''chat_id'', JStr ''42''),
         (''text'', JStr ''I couldn't process that request properly. Please try again.''),
         (''parse_mode'', JStr ''Markdown'')]] \<and>
   notification_sends (fst (main sample_env empty_text_world registry)) = 0 \<and>
   snd (main sample_env empty_text_world registry) = None"
proof -
  have cl: "client_result empty_text_world = None" by (simp add: world_defs)
  have lt: "list_tools_result empty_text_world = Inr [weather_tool]" by (simp add: world_defs)
  have gc: "generate_content_result empty_text_world = Inr (Some [])" by (simp add: world_defs)
  have ae: "absent_or_empty (Some [])" by (simp add: absent_or_empty_def)
  from empty_text_sends_fallback [OF sample_env_present cl lt run_weather gc ae]
    sample_env_present gc ae
  show ?thesis
    unfolding main_empty_text
    by (simp add: notification_sends_def)
qed

text \<open>
  C9 as stated fails when the process is interrupted during the completion call: a
  \<^verbatim>\<open>KeyboardInterrupt\<close> is not an \<^verbatim>\<open>Exception\<close>, line 82 does not catch it, and
  \<^verbatim>\<open>main\<close> raises it to its caller, having sent nothing.
\<close>

theorem caller_sees_interrupt_counterexample:
  "generate_content_result interrupted_world = Inl (Exn False []) \<and>
   snd (main sample_env interrupted_world registry) = Some (Exn False []) \<and>
   posts (fst (main sample_env interrupted_world registry)) = 0"
  unfolding main_interrupted
  by (simp add: count_defs world_defs)

text \<open>
  C9, as the code has it. Whatever the notification post does (it returns, or it raises
  anything at all, an \<^verbatim>\<open>Exception\<close> or not), the invocation is the same: same trace,
  same return. An \<^verbatim>\<open>Exception\<close> with a text that leaves the body of the outer try
  is caught, and \<^verbatim>\<open>main\<close> returns to its caller. What \<^verbatim>\<open>main\<close> can raise to its
  caller is only an exception that is not an \<^verbatim>\<open>Exception\<close> and left the body of the
  outer try, or what \<^verbatim>\<open>str\<close> raised when lines 83 and 84 formatted the exception
  that was caught.
\<close>

theorem notification_failure_swallowed:
  "main env (w\<lparr>notify_post_result := x\<rparr>) s = main env w s \<and>
   (\<forall>e. snd (processing env w s) = Some e \<and> is_Exception e \<and> printable e \<longrightarrow>
      snd (main env w s) = None) \<and>
   (\<forall>e'. snd (main env w s) = Some e' \<longrightarrow>
      (\<not> is_Exception e' \<and> snd (processing env w s) = Some e') \<or>
      (\<exists>e. snd (processing env w s) = Some e \<and> is_Exception e \<and> str_of e = Inl e'))"
proof (intro conjI allI impI)
  show "main env (w\<lparr>notify_post_result := x\<rparr>) s = main env w s"
    by (simp add: main_def processing_ignores_notify recover_ignores_notify Let_def
             split: prod.splits option.splits)
next
  fix e assume a: "snd (processing env w s) = Some e \<and> is_Exception e \<and> printable e"
  obtain tr1 r1 where pr: "processing env w s = (tr1, r1)" by (cases "processing env w s")
  from a pr show "snd (main env w s) = None"
    by (auto simp: main_def recover_shape Let_def)
next
  fix e' assume a: "snd (main env w s) = Some e'"
  obtain tr1 r1 where pr: "processing env w s = (tr1, r1)" by (cases "processing env w s")
  from a pr
  show "(\<not> is_Exception e' \<and> snd (processing env w s) = Some e') \<or>
        (\<exists>e. snd (processing env w s) = Some e \<and> is_Exception e \<and> str_of e = Inl e')"
    by (auto simp: main_def recover_def Let_def split: if_splits option.splits sum.splits)
qed

theorem notification_failure_swallowed_witness:
  "notify_post_result offline_world = Some (Exn False []) \<and>
   main sample_env (offline_world\<lparr>notify_post_result := None\<rparr>) registry =
     main sample_env offline_world registry \<and>
   snd (processing sample_env offline_world registry) = Some (Exn True ''Connection reset by peer'') \<and>
   printable (Exn True ''Connection reset by peer'') \<and>
   snd (main sample_env offline_world registry) = None \<and>
   snd (main sample_env interrupted_world registry) = Some (Exn False []) \<and>
   snd (main sample_env unprintable_world registry) =
     Some (Exn True ''__str__ returned non-string (type int)'')"
proof -
  note sw = notification_failure_swallowed
      [where env = sample_env and w = offline_world and x = None and s = registry]
  have n: "notify_post_result offline_world = Some (Exn False [])"
    by (simp add: offline_world_def sunny_world_def)
  have same: "main sample_env (offline_world\<lparr>notify_post_result := None\<rparr>) registry =
     main sample_env offline_world registry"
    using sw by blast
  have pr: "snd (processing sample_env offline_world registry) = Some (Exn True ''Connection reset by peer'')"
    unfolding processing_offline by simp
  have pt: "printable (Exn True ''Connection reset by peer'')"
    by (simp add: printable_def)
  have ex: "is_Exception (Exn True ''Connection reset by peer'')" by simp
  have caught: "snd (main sample_env offline_world registry) = None"
    using sw pr pt ex by blast
  have i: "snd (main sample_env interrupted_world registry) = Some (Exn False [])"
    unfolding main_interrupted by simp
  have u: "snd (main sample_env unprintable_world registry) =
     Some (Exn True ''__str__ returned non-string (type int)'')"
    unfolding main_unprintable by simp
  from n same pr pt caught i u show ?thesis by (intro conjI)
qed

end
